theory Spec2Isabelle
  imports Main
begin

section \<open>Data model\<close>

text \<open>
  JSON values as the controllers build them with \<^verbatim>\<open>res.json\<close>: an object is an
  association list, in the order the fields are written.
\<close>

datatype json = JString string | JNumber nat | JObject "(string \<times> json) list"

record response =
  status :: nat
  body :: json

text \<open>
  Failures raised by the collaborators (a rejected promise or a thrown \<^verbatim>\<open>Error\<close>).
  The kinds are those of the error-handling design; \<open>StorageFailure\<close> is a rejected
  query of the account storage.
\<close>

datatype error =
    InvalidInput
  | MalformedHash
  | Malformed
  | InvalidSignature
  | Expired
  | Misconfiguration
  | StorageFailure

text \<open>
  \<^verbatim>\<open>error.message\<close>. The token failures carry the texts of the jsonwebtoken
  package; the controllers never read a message, only the access guard copies it.
\<close>

fun message :: "error \<Rightarrow> string" where
  "message InvalidInput = ''Illegal arguments''"
| "message MalformedHash = ''Invalid salt version''"
| "message Malformed = ''jwt malformed''"
| "message InvalidSignature = ''invalid signature''"
| "message Expired = ''jwt expired''"
| "message Misconfiguration = ''secret or public key must be provided''"
| "message StorageFailure = ''storage operation failed''"

text \<open>
  The user document of \<^verbatim>\<open>UserSchema\<close>: \<^verbatim>\<open>_id\<close>, the three declared paths, the
  two timestamps that \<^verbatim>\<open>timestamps: true\<close> adds, and the version key \<^verbatim>\<open>__v\<close> that
  Mongoose gives every document of a schema that does not set \<^verbatim>\<open>versionKey: false\<close>
  (this schema does not). \<open>user_password\<close> holds the credential hash.
\<close>

record user =
  user_id :: string
  user_name :: string
  user_email :: string
  user_password :: string
  createdAt :: string
  updatedAt :: string
  user_v :: nat

text \<open>The argument of \<^verbatim>\<open>new User({ name, email, password: hashedPassword })\<close>.\<close>

record new_user =
  new_name :: string
  new_email :: string
  new_password :: string

text \<open>The identity claim \<^verbatim>\<open>{ id: user._id, email: user.email }\<close>.\<close>

record claim =
  claim_id :: string
  claim_email :: string

text \<open>
  What the handlers read of a request: the \<^verbatim>\<open>Authorization\<close> header
  (\<^verbatim>\<open>req.header("Authorization")\<close>, absent when not sent), the three body fields and
  \<^verbatim>\<open>req.user\<close>, which only the access guard sets.
\<close>

record request =
  authorization :: "string option"
  body_name :: string
  body_email :: string
  body_password :: string
  req_user :: "claim option"

record env =
  JWT_SECRET :: "string option"

section \<open>Collaborators\<close>

text \<open>
  The packages and the Mongoose model are called, not implemented, by this repository;
  each is a record of the operations the code calls. An operation that can reject
  returns \<open>Inl\<close> of the error. \<open>bcrypt_genSalt\<close> takes the random characters it
  draws as its second argument; \<open>jwt_sign\<close> and \<open>jwt_verify\<close> take the clock (seconds)
  as their last.
\<close>

record bcrypt_lib =
  bcrypt_genSalt :: "nat \<Rightarrow> string \<Rightarrow> string"
  bcrypt_hash :: "string \<Rightarrow> string \<Rightarrow> error + string"
  bcrypt_compare :: "string \<Rightarrow> string \<Rightarrow> error + bool"

record sign_options =
  expiresIn :: nat
  algorithm :: string

record jwt_lib =
  jwt_sign :: "claim \<Rightarrow> string option \<Rightarrow> sign_options \<Rightarrow> nat \<Rightarrow> error + string"
  jwt_verify :: "string option \<Rightarrow> string option \<Rightarrow> nat \<Rightarrow> error + claim"

record 'db user_model =
  User_findOne :: "'db \<Rightarrow> string \<Rightarrow> error + user option"
  User_findById :: "'db \<Rightarrow> string \<Rightarrow> error + user option"
  User_save :: "'db \<Rightarrow> new_user \<Rightarrow> error + 'db"

section \<open>JavaScript string operations\<close>

text \<open>\<^verbatim>\<open>s.startsWith(p)\<close>.\<close>

definition startsWith :: "string \<Rightarrow> string \<Rightarrow> bool" where
  "startsWith s p = (take (length p) s = p)"

text \<open>
  \<^verbatim>\<open>s.split(sep)\<close> for a one-character separator: every occurrence separates, so
  the result has one more element than there are separators.
\<close>

fun js_split :: "string \<Rightarrow> char \<Rightarrow> string list" where
  "js_split [] sep = [[]]"
| "js_split (c # cs) sep =
     (if c = sep then [] # js_split cs sep
      else (case js_split cs sep of
              [] \<Rightarrow> [[c]]
            | w # ws \<Rightarrow> (c # w) # ws))"

text \<open>\<^verbatim>\<open>xs[i]\<close>: \<^verbatim>\<open>undefined\<close> out of range.\<close>

definition js_index :: "'a list \<Rightarrow> nat \<Rightarrow> 'a option" where
  "js_index xs i = (if i < length xs then Some (xs ! i) else None)"

section \<open>authService.js\<close>

definition hashPassword :: "bcrypt_lib \<Rightarrow> string \<Rightarrow> string \<Rightarrow> error + string" where
  "hashPassword B rnd password =
     (let salt = bcrypt_genSalt B 10 rnd
      in bcrypt_hash B password salt)"

definition comparePasswords :: "bcrypt_lib \<Rightarrow> string \<Rightarrow> string \<Rightarrow> error + bool" where
  "comparePasswords B password hashedPassword = bcrypt_compare B password hashedPassword"

text \<open>\<^verbatim>\<open>expiresIn: "1h"\<close> is 3600 seconds.\<close>

definition generateToken :: "jwt_lib \<Rightarrow> env \<Rightarrow> nat \<Rightarrow> user \<Rightarrow> error + string" where
  "generateToken J e now u =
     jwt_sign J
       \<lparr>claim_id = user_id u, claim_email = user_email u\<rparr>
       (JWT_SECRET e)
       \<lparr>expiresIn = 3600, algorithm = ''HS256''\<rparr>
       now"

section \<open>authMiddleware.js\<close>

definition access_denied :: response where
  "access_denied =
     \<lparr>status = 401,
      body = JObject [(''message'', JString ''Access Denied''),
                      (''error'', JString ''No token provided'')]\<rparr>"

definition invalid_token :: "error \<Rightarrow> response" where
  "invalid_token failure =
     \<lparr>status = 401,
      body = JObject [(''message'', JString ''Invalid Token''),
                      (''error'', JString (message failure))]\<rparr>"

text \<open>
  \<open>next\<close> is the rest of the pipeline, run on the request with \<^verbatim>\<open>req.user\<close> set.
\<close>

definition authenticateUser ::
  "jwt_lib \<Rightarrow> env \<Rightarrow> nat \<Rightarrow> request \<Rightarrow> (request \<Rightarrow> response) \<Rightarrow> response" where
  "authenticateUser J e now req next =
     (case authorization req of
        None \<Rightarrow> access_denied
      | Some authHeader \<Rightarrow>
          if \<not> startsWith authHeader ''Bearer '' then access_denied
          else
            (let token = js_index (js_split authHeader CHR '' '') 1
             in case jwt_verify J token (JWT_SECRET e) now of
                  Inl failure \<Rightarrow> invalid_token failure
                | Inr decoded \<Rightarrow> next (req\<lparr>req_user := Some decoded\<rparr>)))"

section \<open>User.js\<close>

text \<open>The plain object of a document, and the \<^verbatim>\<open>toJSON\<close> transform of the schema.\<close>

definition toObject :: "user \<Rightarrow> (string \<times> json) list" where
  "toObject u =
     [(''_id'', JString (user_id u)),
      (''name'', JString (user_name u)),
      (''email'', JString (user_email u)),
      (''password'', JString (user_password u)),
      (''createdAt'', JString (createdAt u)),
      (''updatedAt'', JString (updatedAt u)),
      (''__v'', JNumber (user_v u))]"

definition delete_key :: "string \<Rightarrow> (string \<times> json) list \<Rightarrow> (string \<times> json) list" where
  "delete_key k ret = filter (\<lambda>(k', v). k' \<noteq> k) ret"

definition transform :: "(string \<times> json) list \<Rightarrow> (string \<times> json) list" where
  "transform ret = delete_key ''password'' ret"

text \<open>
  \<^verbatim>\<open>.select("-password")\<close>: a path with a leading minus is excluded from the result.
\<close>

definition select :: "string \<Rightarrow> (string \<times> json) list \<Rightarrow> (string \<times> json) list" where
  "select path doc =
     (case path of
        c # field \<Rightarrow> if c = CHR ''-'' then delete_key field doc
                     else filter (\<lambda>(k, v). k = path \<or> k = ''_id'') doc
      | [] \<Rightarrow> doc)"

section \<open>userController.js\<close>

text \<open>The bodies \<^verbatim>\<open>{ message: m }\<close> and \<^verbatim>\<open>{ error: m }\<close>.\<close>

definition message_body :: "string \<Rightarrow> json" where
  "message_body m = JObject [(''message'', JString m)]"

definition error_body :: "string \<Rightarrow> json" where
  "error_body m = JObject [(''error'', JString m)]"

definition registerUser ::
  "'db user_model \<Rightarrow> bcrypt_lib \<Rightarrow> string \<Rightarrow> 'db \<Rightarrow> request \<Rightarrow> response \<times> 'db" where
  "registerUser U B rnd db req =
     (case User_findOne U db (body_email req) of
        Inl _ \<Rightarrow> (\<lparr>status = 500, body = error_body ''Error registering user''\<rparr>, db)
      | Inr (Some existingUser) \<Rightarrow>
          (\<lparr>status = 400, body = message_body ''User already exists''\<rparr>, db)
      | Inr None \<Rightarrow>
          (case hashPassword B rnd (body_password req) of
             Inl _ \<Rightarrow> (\<lparr>status = 500, body = error_body ''Error registering user''\<rparr>, db)
           | Inr hashedPassword \<Rightarrow>
               (case User_save U db
                       \<lparr>new_name = body_name req, new_email = body_email req,
                        new_password = hashedPassword\<rparr> of
                  Inl _ \<Rightarrow> (\<lparr>status = 500, body = error_body ''Error registering user''\<rparr>, db)
                | Inr db' \<Rightarrow>
                    (\<lparr>status = 201, body = message_body ''User registered successfully''\<rparr>, db'))))"

definition loginUser ::
  "'db user_model \<Rightarrow> bcrypt_lib \<Rightarrow> jwt_lib \<Rightarrow> env \<Rightarrow> nat \<Rightarrow> 'db \<Rightarrow> request \<Rightarrow> response" where
  "loginUser U B J e now db req =
     (case User_findOne U db (body_email req) of
        Inl _ \<Rightarrow> \<lparr>status = 500, body = error_body ''Error logging in''\<rparr>
      | Inr None \<Rightarrow> \<lparr>status = 400, body = message_body ''Invalid credentials''\<rparr>
      | Inr (Some u) \<Rightarrow>
          (case comparePasswords B (body_password req) (user_password u) of
             Inl _ \<Rightarrow> \<lparr>status = 500, body = error_body ''Error logging in''\<rparr>
           | Inr False \<Rightarrow> \<lparr>status = 400, body = message_body ''Invalid credentials''\<rparr>
           | Inr True \<Rightarrow>
               (case generateToken J e now u of
                  Inl _ \<Rightarrow> \<lparr>status = 500, body = error_body ''Error logging in''\<rparr>
                | Inr token \<Rightarrow>
                    \<lparr>status = 200,
                     body = JObject
                       [(''token'', JString token),
                        (''user'', JObject [(''id'', JString (user_id u)),
                                            (''name'', JString (user_name u)),
                                            (''email'', JString (user_email u))])]\<rparr>)))"

text \<open>
  \<^verbatim>\<open>req.user.id\<close> throws when \<^verbatim>\<open>req.user\<close> is undefined; the \<^verbatim>\<open>catch\<close> answers 500.
  \<^verbatim>\<open>res.json(user)\<close> serialises the selected document through the schema's transform.
\<close>

definition getProfile :: "'db user_model \<Rightarrow> 'db \<Rightarrow> request \<Rightarrow> response" where
  "getProfile U db req =
     (case req_user req of
        None \<Rightarrow> \<lparr>status = 500, body = error_body ''Error fetching profile''\<rparr>
      | Some c \<Rightarrow>
          (case User_findById U db (claim_id c) of
             Inl _ \<Rightarrow> \<lparr>status = 500, body = error_body ''Error fetching profile''\<rparr>
           | Inr None \<Rightarrow> \<lparr>status = 404, body = message_body ''User not found''\<rparr>
           | Inr (Some u) \<Rightarrow>
               \<lparr>status = 200,
                body = JObject (transform (select ''-password'' (toObject u)))\<rparr>))"

text \<open>The field names of a JSON object.\<close>

definition keys :: "json \<Rightarrow> string list" where
  "keys j = (case j of JObject kvs \<Rightarrow> map fst kvs | _ \<Rightarrow> [])"

section \<open>The credential hasher behind bcryptjs\<close>

text \<open>
  Modelled from the spec: the decimal digit of a work factor, for the parameter
  prefix of a CredentialHash (the bcryptjs package is not part of the repository).
\<close>

definition digit_char :: "nat \<Rightarrow> char" where
  "digit_char d = ''0123456789'' ! (d mod 10)"

text \<open>Modelled from the spec: reading a digit of the work factor back (bcryptjs is absent).\<close>

definition digit_value :: "char \<Rightarrow> nat option" where
  "digit_value c =
     map_of [(CHR ''0'', 0), (CHR ''1'', 1), (CHR ''2'', 2), (CHR ''3'', 3), (CHR ''4'', 4),
             (CHR ''5'', 5), (CHR ''6'', 6), (CHR ''7'', 7), (CHR ''8'', 8), (CHR ''9'', 9)] c"

text \<open>
  Modelled from the spec: \<^verbatim>\<open>bcrypt.genSalt\<close>, absent from the repository. The hash
  string is self-describing: it starts with the version, the two-digit work factor and
  the salt. \<open>rnd\<close> is the salt the call draws at random, 22 characters in the layout
  of bcrypt.
\<close>

definition spec_genSalt :: "nat \<Rightarrow> string \<Rightarrow> string" where
  "spec_genSalt rounds rnd =
     ''$2a$'' @ [digit_char (rounds div 10), digit_char rounds] @ ''$'' @ rnd"

text \<open>
  Modelled from the spec: the parameters embedded in a hash (work factor and salt),
  as \<^verbatim>\<open>bcrypt.hash\<close> and \<^verbatim>\<open>bcrypt.compare\<close>, both absent, read them back. A string
  of the wrong format or version has none.
\<close>

definition parse_params :: "string \<Rightarrow> (nat \<times> string) option" where
  "parse_params h =
     (if 29 \<le> length h \<and> take 4 h = ''$2a$'' \<and> h ! 6 = CHR ''$'' then
        (case (digit_value (h ! 4), digit_value (h ! 5)) of
           (Some a, Some b) \<Rightarrow> Some (10 * a + b, take 22 (drop 7 h))
         | _ \<Rightarrow> None)
      else None)"

text \<open>
  Modelled from the spec: the equality check of \<^verbatim>\<open>bcrypt.compare\<close> (absent), which
  visits every position and does not stop at the first difference. Only its result is
  represented here, not its running time.
\<close>

definition ct_equal :: "string \<Rightarrow> string \<Rightarrow> bool" where
  "ct_equal a b =
     (length a = length b \<and> foldl (\<lambda>same (x, y). same \<and> x = y) True (zip a b))"

text \<open>
  Modelled from the spec: \<^verbatim>\<open>bcrypt.hash\<close>, absent from the repository. It fails only
  on invalid input and is deterministic in plaintext and salt. \<open>kdf\<close> is the slow
  key derivation itself (work factor, salt, plaintext), left as a parameter.
\<close>

definition spec_hash ::
  "(nat \<Rightarrow> string \<Rightarrow> string \<Rightarrow> string) \<Rightarrow> string \<Rightarrow> string \<Rightarrow> error + string" where
  "spec_hash kdf plaintext salt =
     (if plaintext = [] then Inl InvalidInput
      else (case parse_params salt of
              None \<Rightarrow> Inl InvalidInput
            | Some (cost, s) \<Rightarrow> Inr (take 29 salt @ kdf cost s plaintext)))"

text \<open>
  Modelled from the spec: \<^verbatim>\<open>bcrypt.compare\<close>, absent from the repository. It derives
  the hash again from the plaintext with the parameters embedded in the stored hash and
  compares; a mismatch is \<open>False\<close>, a malformed hash is an error.
\<close>

definition spec_compare ::
  "(nat \<Rightarrow> string \<Rightarrow> string \<Rightarrow> string) \<Rightarrow> string \<Rightarrow> string \<Rightarrow> error + bool" where
  "spec_compare kdf plaintext h =
     (case parse_params h of
        None \<Rightarrow> Inl MalformedHash
      | Some (cost, s) \<Rightarrow> Inr (ct_equal (take 29 h @ kdf cost s plaintext) h))"

text \<open>Modelled from the spec: the bcryptjs package (absent) as the three operations above.\<close>

definition spec_bcrypt :: "(nat \<Rightarrow> string \<Rightarrow> string \<Rightarrow> string) \<Rightarrow> bcrypt_lib" where
  "spec_bcrypt kdf =
     \<lparr>bcrypt_genSalt = spec_genSalt, bcrypt_hash = spec_hash kdf,
      bcrypt_compare = spec_compare kdf\<rparr>"

section \<open>The token issuer and verifier behind jsonwebtoken\<close>

text \<open>
  Modelled from the spec: the signed payload of a session token, the claim with the
  issued-at and expires-at times (the jsonwebtoken package is not part of the repository).
\<close>

record payload =
  pl_claim :: claim
  pl_iat :: nat
  pl_exp :: nat

text \<open>
  Modelled from the spec: the primitives of the absent jsonwebtoken package that the
  spec names but does not define, taken as parameters: the MAC (secret, then signing
  input, giving the signature segment) and the encoding of the payload segment with its
  decoding.
\<close>

record token_codec =
  hmac :: "string \<Rightarrow> string \<Rightarrow> string"
  encode_payload :: "payload \<Rightarrow> string"
  decode_payload :: "string \<Rightarrow> payload option"

text \<open>
  Modelled from the spec: the header segment (algorithm and type) of a token of the
  absent jsonwebtoken package, the base64url text of \<^verbatim>\<open>{"alg":"HS256","typ":"JWT"}\<close>.
\<close>

definition jose_header :: string where
  "jose_header = ''eyJhbGciOiJIUzI1NiIsInR5cCI6IkpXVCJ9''"

text \<open>
  Modelled from the spec: \<^verbatim>\<open>jwt.sign\<close>, absent from the repository. The token is
  header, payload and signature joined by dots; the payload holds the claim, the issue
  time and the issue time plus the time to live; it fails only without a secret.
\<close>

definition spec_sign ::
  "token_codec \<Rightarrow> claim \<Rightarrow> string option \<Rightarrow> sign_options \<Rightarrow> nat \<Rightarrow> error + string" where
  "spec_sign C c secret opts now =
     (case secret of
        None \<Rightarrow> Inl Misconfiguration
      | Some s \<Rightarrow>
          if s = [] then Inl Misconfiguration
          else
            (let p = encode_payload C \<lparr>pl_claim = c, pl_iat = now, pl_exp = now + expiresIn opts\<rparr>;
                 signing_input = jose_header @ ''.'' @ p
             in Inr (signing_input @ ''.'' @ hmac C s signing_input)))"

text \<open>
  Modelled from the spec: \<^verbatim>\<open>jwt.verify\<close>, absent from the repository. Three
  dot-delimited segments or \<open>Malformed\<close>; the signature computed again over header
  and payload or \<open>InvalidSignature\<close>; a decodable payload or \<open>Malformed\<close>; an expiry
  still ahead or \<open>Expired\<close>; then the claim, unchanged.
\<close>

definition spec_verify ::
  "token_codec \<Rightarrow> string option \<Rightarrow> string option \<Rightarrow> nat \<Rightarrow> error + claim" where
  "spec_verify C token secret now =
     (case token of
        None \<Rightarrow> Inl Malformed
      | Some t \<Rightarrow>
          (case js_split t CHR ''.'' of
             [h, p, sg] \<Rightarrow>
               (case secret of
                  None \<Rightarrow> Inl Misconfiguration
                | Some s \<Rightarrow>
                    if s = [] then Inl Misconfiguration
                    else if hmac C s (h @ ''.'' @ p) \<noteq> sg then Inl InvalidSignature
                    else
                      (case decode_payload C p of
                         None \<Rightarrow> Inl Malformed
                       | Some pl \<Rightarrow>
                           if pl_exp pl \<le> now then Inl Expired
                           else Inr (pl_claim pl)))
           | _ \<Rightarrow> Inl Malformed))"

text \<open>Modelled from the spec: the jsonwebtoken package (absent) as the two operations above.\<close>

definition spec_jwt :: "token_codec \<Rightarrow> jwt_lib" where
  "spec_jwt C = \<lparr>jwt_sign = spec_sign C, jwt_verify = spec_verify C\<rparr>"

section \<open>A runnable instance\<close>

text \<open>
  To run the handlers on concrete requests the parameters need values. The instance
  below is transparent on purpose: the payload is written in clear (hexadecimal text and
  decimal times), the MAC and the key derivation only rearrange their inputs, and the
  user collection is a list. It has the shape of the real collaborators and none of
  their strength.
\<close>

function decimal :: "nat \<Rightarrow> string" where
  "decimal n = (if n < 10 then [digit_char n] else decimal (n div 10) @ [digit_char n])"
  by pat_completeness auto
termination
  by (relation "measure (\<lambda>n. n)") auto

declare decimal.simps [simp del]

definition number :: "string \<Rightarrow> nat option" where
  "number s =
     (if s = [] \<or> (\<exists>c \<in> set s. digit_value c = None) then None
      else Some (foldl (\<lambda>n c. 10 * n + the (digit_value c)) 0 s))"

definition hex_digit :: "nat \<Rightarrow> char" where
  "hex_digit d = ''0123456789abcdef'' ! (d mod 16)"

definition hex_value :: "char \<Rightarrow> nat option" where
  "hex_value c =
     map_of [(CHR ''0'', 0), (CHR ''1'', 1), (CHR ''2'', 2), (CHR ''3'', 3), (CHR ''4'', 4),
             (CHR ''5'', 5), (CHR ''6'', 6), (CHR ''7'', 7), (CHR ''8'', 8), (CHR ''9'', 9),
             (CHR ''a'', 10), (CHR ''b'', 11), (CHR ''c'', 12), (CHR ''d'', 13),
             (CHR ''e'', 14), (CHR ''f'', 15)] c"

fun hex_encode :: "string \<Rightarrow> string" where
  "hex_encode [] = []"
| "hex_encode (c # cs) = hex_digit (of_char c div 16) # hex_digit (of_char c) # hex_encode cs"

fun hex_decode :: "string \<Rightarrow> string option" where
  "hex_decode [] = Some []"
| "hex_decode [a] = None"
| "hex_decode (a # b # r) =
     (case (hex_value a, hex_value b, hex_decode r) of
        (Some x, Some y, Some s) \<Rightarrow> Some (char_of (16 * x + y) # s)
      | _ \<Rightarrow> None)"

definition plain_encode :: "payload \<Rightarrow> string" where
  "plain_encode p =
     hex_encode (claim_id (pl_claim p)) @ ''~'' @ hex_encode (claim_email (pl_claim p)) @ ''~'' @
     decimal (pl_iat p) @ ''~'' @ decimal (pl_exp p)"

definition plain_decode :: "string \<Rightarrow> payload option" where
  "plain_decode s =
     (case js_split s CHR ''~'' of
        [i, m, a, b] \<Rightarrow>
          (case (hex_decode i, hex_decode m, number a, number b) of
             (Some i', Some m', Some t0, Some t1) \<Rightarrow>
               Some \<lparr>pl_claim = \<lparr>claim_id = i', claim_email = m'\<rparr>, pl_iat = t0, pl_exp = t1\<rparr>
           | _ \<Rightarrow> None)
      | _ \<Rightarrow> None)"

definition plain_hmac :: "string \<Rightarrow> string \<Rightarrow> string" where
  "plain_hmac s m = filter (\<lambda>c. c \<noteq> CHR ''.'') (rev s @ m)"

definition plain_codec :: token_codec where
  "plain_codec =
     \<lparr>hmac = plain_hmac, encode_payload = plain_encode, decode_payload = plain_decode\<rparr>"

definition plain_kdf :: "nat \<Rightarrow> string \<Rightarrow> string \<Rightarrow> string" where
  "plain_kdf cost salt plaintext = rev plaintext @ salt"

text \<open>
  The collection in memory: \<^verbatim>\<open>findOne({ email })\<close> and \<^verbatim>\<open>findById\<close> return the first
  match, \<^verbatim>\<open>save\<close> appends a document at version 0 and refuses a second document with
  the same email, as the unique index does.
\<close>

definition mem_findOne :: "user list \<Rightarrow> string \<Rightarrow> error + user option" where
  "mem_findOne db e = Inr (find (\<lambda>u. user_email u = e) db)"

definition mem_findById :: "user list \<Rightarrow> string \<Rightarrow> error + user option" where
  "mem_findById db i = Inr (find (\<lambda>u. user_id u = i) db)"

definition mem_save :: "user list \<Rightarrow> new_user \<Rightarrow> error + user list" where
  "mem_save db n =
     (if \<exists>u \<in> set db. user_email u = new_email n then Inl StorageFailure
      else Inr (db @
        [\<lparr>user_id = decimal (length db), user_name = new_name n, user_email = new_email n,
          user_password = new_password n,
          createdAt = ''2024-03-20T10:00:00.000Z'', updatedAt = ''2024-03-20T10:00:00.000Z'',
          user_v = 0\<rparr>]))"

definition mem_model :: "user list user_model" where
  "mem_model = \<lparr>User_findOne = mem_findOne, User_findById = mem_findById, User_save = mem_save\<rparr>"

text \<open>
  The account of the API testing guide, once registered with the salt
  \<^verbatim>\<open>abcdefghijklmnopqrstuv\<close>, and the requests sent for it.
\<close>

definition john :: user where
  "john =
     \<lparr>user_id = ''0'', user_name = ''John Doe'', user_email = ''john@example.com'',
      user_password = ''$2a$10$abcdefghijklmnopqrstuv654321abcdefghijklmnopqrstuv'',
      createdAt = ''2024-03-20T10:00:00.000Z'', updatedAt = ''2024-03-20T10:00:00.000Z'',
      user_v = 0\<rparr>"

definition server_env :: env where
  "server_env = \<lparr>JWT_SECRET = Some ''s3cret''\<rparr>"

definition request_with :: "string option \<Rightarrow> request" where
  "request_with h =
     \<lparr>authorization = h, body_name = ''John Doe'', body_email = ''john@example.com'',
      body_password = ''123456'', req_user = None\<rparr>"

text \<open>
  The token issued to that account at time 100 under the secret of \<open>server_env\<close>,
  and the token issued at the same time to an account with id 7 that is no longer stored.
\<close>

definition john_token :: string where
  "john_token = ''eyJhbGciOiJIUzI1NiIsInR5cCI6IkpXVCJ9.30~6a6f686e406578616d706c652e636f6d~100~3700.terc3seyJhbGciOiJIUzI1NiIsInR5cCI6IkpXVCJ930~6a6f686e406578616d706c652e636f6d~100~3700''"

definition removed_token :: string where
  "removed_token = ''eyJhbGciOiJIUzI1NiIsInR5cCI6IkpXVCJ9.37~6a6f686e406578616d706c652e636f6d~100~3700.terc3seyJhbGciOiJIUzI1NiIsInR5cCI6IkpXVCJ937~6a6f686e406578616d706c652e636f6d~100~3700''"

section \<open>Properties of the string operations\<close>

lemma js_split_no_sep: "c \<notin> set s \<Longrightarrow> js_split s c = [s]"
  by (induction s) auto

lemma js_split_append: "c \<notin> set a \<Longrightarrow> js_split (a @ c # r) c = a # js_split r c"
  by (induction a) auto

lemma js_split_three:
  assumes "c \<notin> set x" "c \<notin> set y" "c \<notin> set z"
  shows "js_split (x @ [c] @ y @ [c] @ z) c = [x, y, z]"
  using assms by (simp add: js_split_append js_split_no_sep)

lemma js_split_head: "\<exists>ws. js_split s c = takeWhile (\<lambda>x. x \<noteq> c) s # ws"
  by (induction s) (auto split: list.splits)

text \<open>
  After the prefix check, \<^verbatim>\<open>authHeader.split(" ")[1]\<close> is defined: it is what follows
  the prefix, up to the next space.
\<close>

lemma bearer_token:
  assumes "startsWith h ''Bearer ''"
  shows "js_index (js_split h CHR '' '') 1 = Some (takeWhile (\<lambda>x. x \<noteq> CHR '' '') (drop 7 h))"
proof -
  define r where "r = drop 7 h"
  have len: "length ''Bearer '' = 7"
    by simp
  have "take 7 h = ''Bearer ''"
    using assms unfolding startsWith_def len .
  moreover have "take 7 h @ r = h"
    unfolding r_def by (rule append_take_drop_id)
  ultimately have h: "h = ''Bearer'' @ CHR '' '' # r"
    by simp
  obtain ws where ws: "js_split r CHR '' '' = takeWhile (\<lambda>x. x \<noteq> CHR '' '') r # ws"
    using js_split_head by blast
  have "js_split (''Bearer'' @ CHR '' '' # r) CHR '' '' = ''Bearer'' # js_split r CHR '' ''"
    by (rule js_split_append) simp
  then have "js_index (js_split h CHR '' '') 1 = Some (takeWhile (\<lambda>x. x \<noteq> CHR '' '') r)"
    unfolding h ws by (simp add: js_index_def)
  then show ?thesis
    by (simp only: r_def)
qed

lemma authenticateUser_step:
  assumes "authorization req = Some h" and "startsWith h ''Bearer ''"
  shows "authenticateUser J e now req next =
      (case jwt_verify J (Some (takeWhile (\<lambda>x. x \<noteq> CHR '' '') (drop 7 h))) (JWT_SECRET e) now of
         Inl failure \<Rightarrow> invalid_token failure
       | Inr decoded \<Rightarrow> next (req\<lparr>req_user := Some decoded\<rparr>))"
  using assms bearer_token [OF assms(2)] by (simp add: authenticateUser_def)

section \<open>Properties of the modelled packages\<close>

lemma foldl_same:
  "foldl (\<lambda>same (x, y). same \<and> x = y) acc ps \<longleftrightarrow> acc \<and> (\<forall>(x, y) \<in> set ps. x = y)"
  by (induction ps arbitrary: acc) auto

lemma ct_equal_iff: "ct_equal a b \<longleftrightarrow> a = b"
  unfolding ct_equal_def foldl_same by (simp add: list_eq_iff_zip_eq)

lemma parse_params_genSalt:
  assumes "length rnd = 22"
  shows "parse_params (spec_genSalt 10 rnd @ d) = Some (10, rnd)"
  using assms
  by (simp add: parse_params_def spec_genSalt_def digit_char_def digit_value_def nth_append)

lemma take_29_genSalt:
  assumes "length rnd = 22"
  shows "take 29 (spec_genSalt 10 rnd @ d) = spec_genSalt 10 rnd"
  using assms by (simp add: spec_genSalt_def)

lemma spec_genSalt_inj: "spec_genSalt n r1 = spec_genSalt n r2 \<Longrightarrow> r1 = r2"
  by (simp add: spec_genSalt_def)

lemma hashPassword_spec:
  assumes "p \<noteq> []" and "length rnd = 22"
  shows "hashPassword (spec_bcrypt kdf) rnd p = Inr (spec_genSalt 10 rnd @ kdf 10 rnd p)"
proof -
  have "parse_params (spec_genSalt 10 rnd) = Some (10, rnd)"
    using parse_params_genSalt [OF assms(2), of "[]"] by simp
  moreover have "take 29 (spec_genSalt 10 rnd) = spec_genSalt 10 rnd"
    using take_29_genSalt [OF assms(2), of "[]"] by simp
  ultimately show ?thesis
    using assms(1) by (simp add: hashPassword_def spec_bcrypt_def spec_hash_def)
qed

lemma hashPassword_returns:
  assumes "hashPassword (spec_bcrypt kdf) rnd p = Inr h" and "length rnd = 22"
  shows "h = spec_genSalt 10 rnd @ kdf 10 rnd p"
proof (cases "p = []")
  case True
  with assms(1) show ?thesis
    by (simp add: hashPassword_def spec_bcrypt_def spec_hash_def)
next
  case False
  with assms show ?thesis
    by (simp add: hashPassword_spec)
qed

lemma jose_header_dotless: "CHR ''.'' \<notin> set jose_header"
  by (simp add: jose_header_def)

lemma spec_verify_signed:
  assumes "s \<noteq> []"
    and "decode_payload C p = Some pl"
    and "CHR ''.'' \<notin> set p"
    and "CHR ''.'' \<notin> set (hmac C s (jose_header @ ''.'' @ p))"
  shows "spec_verify C (Some ((jose_header @ ''.'' @ p) @ ''.'' @ hmac C s (jose_header @ ''.'' @ p)))
           (Some s) now =
         (if pl_exp pl \<le> now then Inl Expired else Inr (pl_claim pl))"
proof -
  have "js_split (jose_header @ [CHR ''.''] @ p @ [CHR ''.''] @ hmac C s (jose_header @ ''.'' @ p))
          CHR ''.'' = [jose_header, p, hmac C s (jose_header @ ''.'' @ p)]"
    using jose_header_dotless assms(3,4) by (rule js_split_three)
  then show ?thesis
    using assms(1,2) by (simp add: spec_verify_def)
qed

lemma delete_password_toObject:
  "transform (select ''-password'' (toObject u)) =
     [(''_id'', JString (user_id u)),
      (''name'', JString (user_name u)),
      (''email'', JString (user_email u)),
      (''createdAt'', JString (createdAt u)),
      (''updatedAt'', JString (updatedAt u)),
      (''__v'', JNumber (user_v u))]"
  by (simp add: transform_def select_def delete_key_def toObject_def)

section \<open>The claims\<close>

subsection \<open>C1: a token verifies to the claim it was issued for\<close>

text \<open>
  C1. For every identity claim \<open>c\<close> (the id and email of a user \<open>u\<close>) and every non-empty
  secret \<open>s\<close>, the token that \<open>generateToken\<close> issues at time \<open>t0\<close> verifies under
  the same secret at any time \<open>t1\<close> before the hour has elapsed, and verification
  returns exactly \<open>c\<close>. The payload encoding is assumed to decode back at this payload, and
  the payload and signature segments to contain no dot.
\<close>

theorem generateToken_verify_roundtrip:
  assumes "user_id u = claim_id c" and "user_email u = claim_email c"
    and "s \<noteq> []"
    and "P = \<lparr>pl_claim = c, pl_iat = t0, pl_exp = t0 + 3600\<rparr>"
    and "decode_payload C (encode_payload C P) = Some P"
    and "CHR ''.'' \<notin> set (encode_payload C P)"
    and "CHR ''.'' \<notin> set (hmac C s (jose_header @ ''.'' @ encode_payload C P))"
    and "t1 < t0 + 3600"
  shows "\<exists>token. generateToken (spec_jwt C) \<lparr>JWT_SECRET = Some s\<rparr> t0 u = Inr token \<and>
                 jwt_verify (spec_jwt C) (Some token) (Some s) t1 = Inr c"
proof -
  let ?p = "encode_payload C P"
  let ?token = "(jose_header @ ''.'' @ ?p) @ ''.'' @ hmac C s (jose_header @ ''.'' @ ?p)"
  have c: "\<lparr>claim_id = user_id u, claim_email = user_email u\<rparr> = c"
    using assms(1,2) by simp
  have "generateToken (spec_jwt C) \<lparr>JWT_SECRET = Some s\<rparr> t0 u = Inr ?token"
    using assms(3) by (simp add: generateToken_def spec_jwt_def spec_sign_def c assms(4) Let_def)
  moreover have "spec_verify C (Some ?token) (Some s) t1 = Inr c"
    using spec_verify_signed [OF assms(3,5,6,7), of t1] assms(8) by (simp add: assms(4))
  ultimately show ?thesis
    by (simp add: spec_jwt_def)
qed

text \<open>
  The account of the testing guide, issued at time 100 and verified at time 200.
\<close>

theorem generateToken_verify_roundtrip_witness:
  "\<exists>token. generateToken (spec_jwt plain_codec) \<lparr>JWT_SECRET = Some ''s3cret''\<rparr> 100 john = Inr token \<and>
     jwt_verify (spec_jwt plain_codec) (Some token) (Some ''s3cret'') 200 =
       Inr \<lparr>claim_id = ''0'', claim_email = ''john@example.com''\<rparr>"
proof (rule generateToken_verify_roundtrip
    [where P = "\<lparr>pl_claim = \<lparr>claim_id = ''0'', claim_email = ''john@example.com''\<rparr>,
                 pl_iat = 100, pl_exp = 100 + 3600\<rparr>"])
  show "user_id john = claim_id \<lparr>claim_id = ''0'', claim_email = ''john@example.com''\<rparr>"
    by (simp add: john_def)
  show "user_email john = claim_email \<lparr>claim_id = ''0'', claim_email = ''john@example.com''\<rparr>"
    by (simp add: john_def)
  show "''s3cret'' \<noteq> []"
    by simp
  show "\<lparr>pl_claim = \<lparr>claim_id = ''0'', claim_email = ''john@example.com''\<rparr>,
          pl_iat = 100, pl_exp = 100 + 3600\<rparr> =
        \<lparr>pl_claim = \<lparr>claim_id = ''0'', claim_email = ''john@example.com''\<rparr>,
          pl_iat = 100, pl_exp = 100 + 3600\<rparr>"
    by (rule refl)
  show "decode_payload plain_codec (encode_payload plain_codec
          \<lparr>pl_claim = \<lparr>claim_id = ''0'', claim_email = ''john@example.com''\<rparr>,
           pl_iat = 100, pl_exp = 100 + 3600\<rparr>) =
        Some \<lparr>pl_claim = \<lparr>claim_id = ''0'', claim_email = ''john@example.com''\<rparr>,
              pl_iat = 100, pl_exp = 100 + 3600\<rparr>"
    by code_simp
  show "CHR ''.'' \<notin> set (encode_payload plain_codec
          \<lparr>pl_claim = \<lparr>claim_id = ''0'', claim_email = ''john@example.com''\<rparr>,
           pl_iat = 100, pl_exp = 100 + 3600\<rparr>)"
    by code_simp
  show "CHR ''.'' \<notin> set (hmac plain_codec ''s3cret'' (jose_header @ ''.'' @
          encode_payload plain_codec
            \<lparr>pl_claim = \<lparr>claim_id = ''0'', claim_email = ''john@example.com''\<rparr>,
             pl_iat = 100, pl_exp = 100 + 3600\<rparr>))"
    by code_simp
  show "(200::nat) < 100 + 3600"
    by simp
qed

subsection \<open>C2: the access guard\<close>

text \<open>
  C2. A request without an \<^verbatim>\<open>Authorization\<close> header, or with one that does not start
  with \<^verbatim>\<open>"Bearer "\<close>, is answered 401 \<^verbatim>\<open>Access Denied\<close>. With the prefix, the text that
  follows it (up to the next space) goes to the verifier; a failure of the verifier is
  answered 401 \<^verbatim>\<open>Invalid Token\<close>, and on success the next handler runs on the request
  with the decoded claim attached.
\<close>

theorem authenticateUser_contract:
  "(authorization req = None \<or>
      (\<exists>h. authorization req = Some h \<and> \<not> startsWith h ''Bearer '') \<longrightarrow>
    authenticateUser J e now req next =
      \<lparr>status = 401,
       body = JObject [(''message'', JString ''Access Denied''),
                       (''error'', JString ''No token provided'')]\<rparr>) \<and>
   (authorization req = Some h \<and> startsWith h ''Bearer '' \<longrightarrow>
    authenticateUser J e now req next =
      (case jwt_verify J (Some (takeWhile (\<lambda>x. x \<noteq> CHR '' '') (drop 7 h))) (JWT_SECRET e) now of
         Inl failure \<Rightarrow>
           \<lparr>status = 401,
            body = JObject [(''message'', JString ''Invalid Token''),
                            (''error'', JString (message failure))]\<rparr>
       | Inr decoded \<Rightarrow> next (req\<lparr>req_user := Some decoded\<rparr>)))"
proof (intro conjI impI)
  assume "authorization req = None \<or> (\<exists>h. authorization req = Some h \<and> \<not> startsWith h ''Bearer '')"
  then show "authenticateUser J e now req next =
      \<lparr>status = 401,
       body = JObject [(''message'', JString ''Access Denied''),
                       (''error'', JString ''No token provided'')]\<rparr>"
    by (auto simp: authenticateUser_def access_denied_def)
next
  assume h: "authorization req = Some h \<and> startsWith h ''Bearer ''"
  then have "js_index (js_split h CHR '' '') 1 = Some (takeWhile (\<lambda>x. x \<noteq> CHR '' '') (drop 7 h))"
    using bearer_token by blast
  with h show "authenticateUser J e now req next =
      (case jwt_verify J (Some (takeWhile (\<lambda>x. x \<noteq> CHR '' '') (drop 7 h))) (JWT_SECRET e) now of
         Inl failure \<Rightarrow>
           \<lparr>status = 401,
            body = JObject [(''message'', JString ''Invalid Token''),
                            (''error'', JString (message failure))]\<rparr>
       | Inr decoded \<Rightarrow> next (req\<lparr>req_user := Some decoded\<rparr>))"
    by (simp add: authenticateUser_def invalid_token_def split: sum.splits)
qed

text \<open>
  No header, the wrong scheme, and the bearer token of the stored account.
\<close>

theorem authenticateUser_contract_witness:
  "authenticateUser (spec_jwt plain_codec) server_env 200 (request_with None)
     (getProfile mem_model [john]) =
     \<lparr>status = 401,
      body = JObject [(''message'', JString ''Access Denied''),
                      (''error'', JString ''No token provided'')]\<rparr> \<and>
   authenticateUser (spec_jwt plain_codec) server_env 200 (request_with (Some ''Token xyz''))
     (getProfile mem_model [john]) =
     \<lparr>status = 401,
      body = JObject [(''message'', JString ''Access Denied''),
                      (''error'', JString ''No token provided'')]\<rparr> \<and>
   authenticateUser (spec_jwt plain_codec) server_env 200
     (request_with (Some (''Bearer '' @ john_token))) (getProfile mem_model [john]) =
     getProfile mem_model [john]
       ((request_with (Some (''Bearer '' @ john_token)))
          \<lparr>req_user := Some \<lparr>claim_id = ''0'', claim_email = ''john@example.com''\<rparr>\<rparr>)"
proof (intro conjI)
  show "authenticateUser (spec_jwt plain_codec) server_env 200 (request_with None)
     (getProfile mem_model [john]) =
     \<lparr>status = 401,
      body = JObject [(''message'', JString ''Access Denied''),
                      (''error'', JString ''No token provided'')]\<rparr>"
    using authenticateUser_contract
      [where req = "request_with None" and J = "spec_jwt plain_codec" and e = server_env
         and now = 200 and ?next = "getProfile mem_model [john]"]
    by (simp add: request_with_def)
next
  have "\<not> startsWith ''Token xyz'' ''Bearer ''"
    by (simp add: startsWith_def)
  then show "authenticateUser (spec_jwt plain_codec) server_env 200
     (request_with (Some ''Token xyz'')) (getProfile mem_model [john]) =
     \<lparr>status = 401,
      body = JObject [(''message'', JString ''Access Denied''),
                      (''error'', JString ''No token provided'')]\<rparr>"
    using authenticateUser_contract
      [where req = "request_with (Some ''Token xyz'')" and J = "spec_jwt plain_codec"
         and e = server_env and now = 200 and ?next = "getProfile mem_model [john]"]
    by (simp add: request_with_def)
next
  have prefix: "startsWith (''Bearer '' @ john_token) ''Bearer ''"
    by (simp add: startsWith_def)
  have verified: "jwt_verify (spec_jwt plain_codec)
      (Some (takeWhile (\<lambda>x. x \<noteq> CHR '' '') (drop 7 (''Bearer '' @ john_token))))
      (JWT_SECRET server_env) 200 =
      Inr \<lparr>claim_id = ''0'', claim_email = ''john@example.com''\<rparr>"
    by code_simp
  have header: "authorization (request_with (Some (''Bearer '' @ john_token))) =
      Some (''Bearer '' @ john_token)"
    by (simp add: request_with_def)
  from authenticateUser_contract
      [where req = "request_with (Some (''Bearer '' @ john_token))"
         and J = "spec_jwt plain_codec" and e = server_env and now = 200
         and ?next = "getProfile mem_model [john]" and h = "''Bearer '' @ john_token"]
    header prefix
  show "authenticateUser (spec_jwt plain_codec) server_env 200
     (request_with (Some (''Bearer '' @ john_token))) (getProfile mem_model [john]) =
     getProfile mem_model [john]
       ((request_with (Some (''Bearer '' @ john_token)))
          \<lparr>req_user := Some \<lparr>claim_id = ''0'', claim_email = ''john@example.com''\<rparr>\<rparr>)"
    by (simp only: verified simp_thms sum.case)
qed

subsection \<open>C3: a password verifies against its own hash\<close>

text \<open>
  C3. For every non-empty plaintext \<open>p\<close> and every salt of 22 characters drawn by the
  call, hashing succeeds and comparing \<open>p\<close> with the hash returns true.
\<close>

theorem hash_then_compare:
  assumes "p \<noteq> []" and "length rnd = 22"
  shows "\<exists>h. hashPassword (spec_bcrypt kdf) rnd p = Inr h \<and>
             comparePasswords (spec_bcrypt kdf) p h = Inr True"
proof -
  let ?h = "spec_genSalt 10 rnd @ kdf 10 rnd p"
  have "spec_compare kdf p ?h = Inr (ct_equal (take 29 ?h @ kdf 10 rnd p) ?h)"
    by (simp only: spec_compare_def parse_params_genSalt [OF assms(2)] option.case prod.case)
  then have "comparePasswords (spec_bcrypt kdf) p ?h = Inr True"
    by (simp only: comparePasswords_def spec_bcrypt_def bcrypt_lib.simps
        take_29_genSalt [OF assms(2)] ct_equal_iff) simp
  with hashPassword_spec [OF assms] show ?thesis
    by blast
qed

theorem hash_then_compare_witness:
  "\<exists>h. hashPassword (spec_bcrypt plain_kdf) ''abcdefghijklmnopqrstuv'' ''123456'' = Inr h \<and>
       comparePasswords (spec_bcrypt plain_kdf) ''123456'' h = Inr True"
  by (rule hash_then_compare) simp_all

subsection \<open>C4: what a rejected token tells the caller\<close>

text \<open>
  C4, amended. Every failure of the verifier is answered with status 401 and the one
  message \<^verbatim>\<open>Invalid Token\<close>; the \<^verbatim>\<open>error\<close> field of the answer is the failure's own
  message.
\<close>

theorem invalid_token_response:
  assumes "authorization req = Some h" and "startsWith h ''Bearer ''"
    and "jwt_verify J (js_index (js_split h CHR '' '') 1) (JWT_SECRET e) now = Inl failure"
  shows "authenticateUser J e now req next =
           \<lparr>status = 401,
            body = JObject [(''message'', JString ''Invalid Token''),
                            (''error'', JString (message failure))]\<rparr>"
  using assms by (simp add: authenticateUser_def invalid_token_def)

theorem invalid_token_response_witness:
  "authenticateUser (spec_jwt plain_codec) server_env 5000
     (request_with (Some (''Bearer '' @ john_token))) (getProfile mem_model [john]) =
     \<lparr>status = 401,
      body = JObject [(''message'', JString ''Invalid Token''),
                      (''error'', JString ''jwt expired'')]\<rparr>"
proof -
  have "authorization (request_with (Some (''Bearer '' @ john_token))) =
      Some (''Bearer '' @ john_token)"
    by (simp add: request_with_def)
  moreover have "startsWith (''Bearer '' @ john_token) ''Bearer ''"
    by (simp add: startsWith_def)
  moreover have "jwt_verify (spec_jwt plain_codec)
      (js_index (js_split (''Bearer '' @ john_token) CHR '' '') 1) (JWT_SECRET server_env) 5000 =
      Inl Expired"
    by code_simp
  ultimately show ?thesis
    using invalid_token_response
      [where J = "spec_jwt plain_codec" and failure = Expired
         and ?next = "getProfile mem_model [john]"]
    by simp
qed

text \<open>
  C4 as stated asks that the answer does not tell an expired token from a malformed
  one. At time 5000 the token issued at time 100 has expired and \<^verbatim>\<open>abc\<close> is malformed;
  the two answers differ in the \<^verbatim>\<open>error\<close> field.
\<close>

theorem expired_and_malformed_differ:
  "authenticateUser (spec_jwt plain_codec) server_env 5000
     (request_with (Some (''Bearer '' @ john_token))) (getProfile mem_model [john]) =
     \<lparr>status = 401,
      body = JObject [(''message'', JString ''Invalid Token''),
                      (''error'', JString ''jwt expired'')]\<rparr> \<and>
   authenticateUser (spec_jwt plain_codec) server_env 5000
     (request_with (Some ''Bearer abc'')) (getProfile mem_model [john]) =
     \<lparr>status = 401,
      body = JObject [(''message'', JString ''Invalid Token''),
                      (''error'', JString ''jwt malformed'')]\<rparr> \<and>
   authenticateUser (spec_jwt plain_codec) server_env 5000
     (request_with (Some (''Bearer '' @ john_token))) (getProfile mem_model [john]) \<noteq>
   authenticateUser (spec_jwt plain_codec) server_env 5000
     (request_with (Some ''Bearer abc'')) (getProfile mem_model [john])"
  by code_simp

subsection \<open>C5: status codes\<close>

text \<open>
  C5. Registration answers 400 when the email is already stored and 201 when the
  account is hashed and saved; login answers 400 when the email is unknown or the
  password comparison returns false; the access guard answers 401 when the token is
  missing, or is refused by the verifier (invalid or expired).
\<close>

theorem http_outcomes:
  "(User_findOne U db (body_email req) = Inr (Some existing) \<longrightarrow>
      registerUser U B rnd db req =
        (\<lparr>status = 400, body = JObject [(''message'', JString ''User already exists'')]\<rparr>, db)) \<and>
   (User_findOne U db (body_email req) = Inr None \<and>
    hashPassword B rnd (body_password req) = Inr hashed \<and>
    User_save U db \<lparr>new_name = body_name req, new_email = body_email req,
                     new_password = hashed\<rparr> = Inr db' \<longrightarrow>
      registerUser U B rnd db req =
        (\<lparr>status = 201,
          body = JObject [(''message'', JString ''User registered successfully'')]\<rparr>, db')) \<and>
   (User_findOne U db (body_email req) = Inr None \<or>
    (User_findOne U db (body_email req) = Inr (Some existing) \<and>
     comparePasswords B (body_password req) (user_password existing) = Inr False) \<longrightarrow>
      loginUser U B J e now db req =
        \<lparr>status = 400, body = JObject [(''message'', JString ''Invalid credentials'')]\<rparr>) \<and>
   (authorization req = None \<or>
    (\<exists>h. authorization req = Some h \<and>
       (\<not> startsWith h ''Bearer '' \<or>
        (\<exists>failure. jwt_verify J (js_index (js_split h CHR '' '') 1) (JWT_SECRET e) now
                      = Inl failure))) \<longrightarrow>
      status (authenticateUser J e now req next) = 401)"
proof (intro conjI impI)
  assume "User_findOne U db (body_email req) = Inr (Some existing)"
  then show "registerUser U B rnd db req =
        (\<lparr>status = 400, body = JObject [(''message'', JString ''User already exists'')]\<rparr>, db)"
    by (simp add: registerUser_def message_body_def)
next
  assume "User_findOne U db (body_email req) = Inr None \<and>
    hashPassword B rnd (body_password req) = Inr hashed \<and>
    User_save U db \<lparr>new_name = body_name req, new_email = body_email req,
                     new_password = hashed\<rparr> = Inr db'"
  then show "registerUser U B rnd db req =
        (\<lparr>status = 201,
          body = JObject [(''message'', JString ''User registered successfully'')]\<rparr>, db')"
    by (simp add: registerUser_def message_body_def)
next
  assume "User_findOne U db (body_email req) = Inr None \<or>
    (User_findOne U db (body_email req) = Inr (Some existing) \<and>
     comparePasswords B (body_password req) (user_password existing) = Inr False)"
  then show "loginUser U B J e now db req =
        \<lparr>status = 400, body = JObject [(''message'', JString ''Invalid credentials'')]\<rparr>"
    by (auto simp: loginUser_def message_body_def)
next
  assume "authorization req = None \<or>
    (\<exists>h. authorization req = Some h \<and>
       (\<not> startsWith h ''Bearer '' \<or>
        (\<exists>failure. jwt_verify J (js_index (js_split h CHR '' '') 1) (JWT_SECRET e) now
                      = Inl failure)))"
  then show "status (authenticateUser J e now req next) = 401"
    by (auto simp: authenticateUser_def access_denied_def invalid_token_def)
qed

text \<open>
  A second registration of the stored account, its first registration, a login with an
  unknown email, a login with the wrong password, and an expired token.
\<close>

theorem http_outcomes_witness:
  "registerUser mem_model (spec_bcrypt plain_kdf) ''abcdefghijklmnopqrstuv'' [john] (request_with None) =
     (\<lparr>status = 400, body = JObject [(''message'', JString ''User already exists'')]\<rparr>, [john]) \<and>
   registerUser mem_model (spec_bcrypt plain_kdf) ''abcdefghijklmnopqrstuv'' [] (request_with None) =
     (\<lparr>status = 201, body = JObject [(''message'', JString ''User registered successfully'')]\<rparr>,
      [john]) \<and>
   loginUser mem_model (spec_bcrypt plain_kdf) (spec_jwt plain_codec) server_env 100 []
     (request_with None) =
     \<lparr>status = 400, body = JObject [(''message'', JString ''Invalid credentials'')]\<rparr> \<and>
   loginUser mem_model (spec_bcrypt plain_kdf) (spec_jwt plain_codec) server_env 100 [john]
     ((request_with None)\<lparr>body_password := ''654321''\<rparr>) =
     \<lparr>status = 400, body = JObject [(''message'', JString ''Invalid credentials'')]\<rparr> \<and>
   status (authenticateUser (spec_jwt plain_codec) server_env 5000
     (request_with (Some (''Bearer '' @ john_token))) (getProfile mem_model [john])) = 401"
proof (intro conjI)
  have "User_findOne mem_model [john] (body_email (request_with None)) = Inr (Some john)"
    by code_simp
  then show "registerUser mem_model (spec_bcrypt plain_kdf) ''abcdefghijklmnopqrstuv'' [john]
      (request_with None) =
     (\<lparr>status = 400, body = JObject [(''message'', JString ''User already exists'')]\<rparr>, [john])"
    using http_outcomes [where U = mem_model and db = "[john]" and req = "request_with None"
        and existing = john and B = "spec_bcrypt plain_kdf" and rnd = "''abcdefghijklmnopqrstuv''"]
    by blast
next
  have "User_findOne mem_model [] (body_email (request_with None)) = Inr None"
    by code_simp
  moreover have "hashPassword (spec_bcrypt plain_kdf) ''abcdefghijklmnopqrstuv''
      (body_password (request_with None)) = Inr (user_password john)"
    by code_simp
  moreover have "User_save mem_model []
      \<lparr>new_name = body_name (request_with None), new_email = body_email (request_with None),
       new_password = user_password john\<rparr> = Inr [john]"
    by code_simp
  ultimately show "registerUser mem_model (spec_bcrypt plain_kdf) ''abcdefghijklmnopqrstuv'' []
      (request_with None) =
     (\<lparr>status = 201, body = JObject [(''message'', JString ''User registered successfully'')]\<rparr>,
      [john])"
    using http_outcomes [where U = mem_model and db = "[]" and req = "request_with None"
        and B = "spec_bcrypt plain_kdf" and rnd = "''abcdefghijklmnopqrstuv''"
        and hashed = "user_password john" and db' = "[john]"]
    by blast
next
  have "User_findOne mem_model [] (body_email (request_with None)) = Inr None"
    by code_simp
  then show "loginUser mem_model (spec_bcrypt plain_kdf) (spec_jwt plain_codec) server_env 100 []
      (request_with None) =
     \<lparr>status = 400, body = JObject [(''message'', JString ''Invalid credentials'')]\<rparr>"
    using http_outcomes [where U = mem_model and db = "[]" and req = "request_with None"
        and B = "spec_bcrypt plain_kdf" and J = "spec_jwt plain_codec" and e = server_env
        and now = 100]
    by blast
next
  have "User_findOne mem_model [john]
      (body_email ((request_with None)\<lparr>body_password := ''654321''\<rparr>)) = Inr (Some john)"
    by code_simp
  moreover have "comparePasswords (spec_bcrypt plain_kdf)
      (body_password ((request_with None)\<lparr>body_password := ''654321''\<rparr>)) (user_password john) =
      Inr False"
    by code_simp
  ultimately show "loginUser mem_model (spec_bcrypt plain_kdf) (spec_jwt plain_codec) server_env 100
      [john] ((request_with None)\<lparr>body_password := ''654321''\<rparr>) =
     \<lparr>status = 400, body = JObject [(''message'', JString ''Invalid credentials'')]\<rparr>"
    using http_outcomes [where U = mem_model and db = "[john]"
        and req = "(request_with None)\<lparr>body_password := ''654321''\<rparr>" and existing = john
        and B = "spec_bcrypt plain_kdf" and J = "spec_jwt plain_codec" and e = server_env
        and now = 100]
    by blast
next
  have "authorization (request_with (Some (''Bearer '' @ john_token))) =
      Some (''Bearer '' @ john_token)"
    by (simp add: request_with_def)
  moreover have "jwt_verify (spec_jwt plain_codec)
      (js_index (js_split (''Bearer '' @ john_token) CHR '' '') 1) (JWT_SECRET server_env) 5000 =
      Inl Expired"
    by code_simp
  ultimately have "authorization (request_with (Some (''Bearer '' @ john_token))) = None \<or>
    (\<exists>h. authorization (request_with (Some (''Bearer '' @ john_token))) = Some h \<and>
       (\<not> startsWith h ''Bearer '' \<or>
        (\<exists>failure. jwt_verify (spec_jwt plain_codec) (js_index (js_split h CHR '' '') 1)
                      (JWT_SECRET server_env) 5000 = Inl failure)))"
    by blast
  then show "status (authenticateUser (spec_jwt plain_codec) server_env 5000
      (request_with (Some (''Bearer '' @ john_token))) (getProfile mem_model [john])) = 401"
    by (rule http_outcomes [THEN conjunct2, THEN conjunct2, THEN conjunct2, rule_format])
qed

subsection \<open>C6: two hashes of one plaintext\<close>

text \<open>
  C6. Each call of \<open>hashPassword\<close> draws a fresh salt. For every plaintext, when two
  calls draw different salts (of the 22 characters of the layout), any two hashes they
  return are different; and for every plaintext the hasher accepts, that is every
  non-empty one, both calls do return a hash.
\<close>

theorem fresh_salts_distinct_hashes:
  assumes "r1 \<noteq> r2" and "length r1 = 22" and "length r2 = 22"
  shows "(\<forall>h1 h2. hashPassword (spec_bcrypt kdf) r1 p = Inr h1 \<and>
                 hashPassword (spec_bcrypt kdf) r2 p = Inr h2 \<longrightarrow> h1 \<noteq> h2) \<and>
         (p \<noteq> [] \<longrightarrow>
            (\<exists>h1 h2. hashPassword (spec_bcrypt kdf) r1 p = Inr h1 \<and>
                     hashPassword (spec_bcrypt kdf) r2 p = Inr h2))"
proof (intro conjI allI impI)
  fix h1 h2
  assume both: "hashPassword (spec_bcrypt kdf) r1 p = Inr h1 \<and>
                hashPassword (spec_bcrypt kdf) r2 p = Inr h2"
  from both have h1: "h1 = spec_genSalt 10 r1 @ kdf 10 r1 p"
    using hashPassword_returns [OF _ assms(2)] by blast
  from both have h2: "h2 = spec_genSalt 10 r2 @ kdf 10 r2 p"
    using hashPassword_returns [OF _ assms(3)] by blast
  show "h1 \<noteq> h2"
  proof
    assume "h1 = h2"
    then have "take 29 (spec_genSalt 10 r1 @ kdf 10 r1 p) =
               take 29 (spec_genSalt 10 r2 @ kdf 10 r2 p)"
      by (simp only: h1 h2)
    then have "spec_genSalt 10 r1 = spec_genSalt 10 r2"
      by (simp only: take_29_genSalt [OF assms(2)] take_29_genSalt [OF assms(3)])
    then have "r1 = r2"
      by (rule spec_genSalt_inj)
    with assms(1) show False
      by contradiction
  qed
next
  assume "p \<noteq> []"
  then show "\<exists>h1 h2. hashPassword (spec_bcrypt kdf) r1 p = Inr h1 \<and>
                   hashPassword (spec_bcrypt kdf) r2 p = Inr h2"
    by (simp add: hashPassword_spec assms(2,3))
qed

text \<open>
  The password of the testing guide hashed twice, with two different salts: both calls
  return a hash, and the two hashes differ.
\<close>

theorem fresh_salts_distinct_hashes_witness:
  "hashPassword (spec_bcrypt plain_kdf) ''abcdefghijklmnopqrstuv'' ''123456'' =
     Inr ''$2a$10$abcdefghijklmnopqrstuv654321abcdefghijklmnopqrstuv'' \<and>
   hashPassword (spec_bcrypt plain_kdf) ''ABCDEFGHIJKLMNOPQRSTUV'' ''123456'' =
     Inr ''$2a$10$ABCDEFGHIJKLMNOPQRSTUV654321ABCDEFGHIJKLMNOPQRSTUV'' \<and>
   ''$2a$10$abcdefghijklmnopqrstuv654321abcdefghijklmnopqrstuv'' \<noteq>
   ''$2a$10$ABCDEFGHIJKLMNOPQRSTUV654321ABCDEFGHIJKLMNOPQRSTUV''"
proof -
  have a: "hashPassword (spec_bcrypt plain_kdf) ''abcdefghijklmnopqrstuv'' ''123456'' =
      Inr ''$2a$10$abcdefghijklmnopqrstuv654321abcdefghijklmnopqrstuv''"
    by code_simp
  have b: "hashPassword (spec_bcrypt plain_kdf) ''ABCDEFGHIJKLMNOPQRSTUV'' ''123456'' =
      Inr ''$2a$10$ABCDEFGHIJKLMNOPQRSTUV654321ABCDEFGHIJKLMNOPQRSTUV''"
    by code_simp
  have "''abcdefghijklmnopqrstuv'' \<noteq> ''ABCDEFGHIJKLMNOPQRSTUV''"
    by simp
  from fresh_salts_distinct_hashes [OF this, of plain_kdf "''123456''", THEN conjunct1] a b
  have "''$2a$10$abcdefghijklmnopqrstuv654321abcdefghijklmnopqrstuv'' \<noteq>
        ''$2a$10$ABCDEFGHIJKLMNOPQRSTUV654321ABCDEFGHIJKLMNOPQRSTUV''"
    by simp
  with a b show ?thesis
    by (simp only: simp_thms)
qed

subsection \<open>C7: mismatch and malformed hash\<close>

text \<open>
  C7. Against a well-formed stored hash the comparison never fails: it returns whether
  the hash derived from the plaintext is the stored one, so a mismatch is \<open>False\<close>. It
  signals an error exactly when the stored hash is malformed.
\<close>

theorem comparePasswords_outcomes:
  "(parse_params h = Some (cost, s) \<longrightarrow>
      comparePasswords (spec_bcrypt kdf) p h = Inr (take 29 h @ kdf cost s p = h)) \<and>
   ((\<exists>e. comparePasswords (spec_bcrypt kdf) p h = Inl e) \<longleftrightarrow> parse_params h = None)"
  by (auto simp: comparePasswords_def spec_bcrypt_def spec_compare_def ct_equal_iff
      split: option.splits)

text \<open>
  A wrong password against the stored hash, and a stored value that is not a hash.
\<close>

theorem comparePasswords_outcomes_witness:
  "comparePasswords (spec_bcrypt plain_kdf) ''654321'' (user_password john) = Inr False \<and>
   (\<exists>e. comparePasswords (spec_bcrypt plain_kdf) ''123456'' ''123456'' = Inl e)"
proof
  have "parse_params (user_password john) = Some (10, ''abcdefghijklmnopqrstuv'')"
    by code_simp
  moreover have "take 29 (user_password john) @ plain_kdf 10 ''abcdefghijklmnopqrstuv'' ''654321''
      \<noteq> user_password john"
    by code_simp
  ultimately show "comparePasswords (spec_bcrypt plain_kdf) ''654321'' (user_password john) = Inr False"
    using comparePasswords_outcomes
      [of "user_password john" 10 "''abcdefghijklmnopqrstuv''" plain_kdf "''654321''"]
    by simp
next
  have "parse_params ''123456'' = None"
    by code_simp
  then show "\<exists>e. comparePasswords (spec_bcrypt plain_kdf) ''123456'' ''123456'' = Inl e"
    using comparePasswords_outcomes [of "''123456''" 0 "[]" plain_kdf "''123456''"]
    by simp
qed

subsection \<open>C8: the profile\<close>

text \<open>
  C8, amended. When the storage finds the user of the claim, the profile answer is 200
  with every field of the stored document but the password: the user's id, name and
  email, the two timestamps of the schema and the version key. It has no
  \<^verbatim>\<open>password\<close> field.
\<close>

theorem getProfile_fields:
  assumes "req_user req = Some c" and "User_findById U db (claim_id c) = Inr (Some u)"
  shows "getProfile U db req =
           \<lparr>status = 200,
            body = JObject [(''_id'', JString (user_id u)),
                            (''name'', JString (user_name u)),
                            (''email'', JString (user_email u)),
                            (''createdAt'', JString (createdAt u)),
                            (''updatedAt'', JString (updatedAt u)),
                            (''__v'', JNumber (user_v u))]\<rparr> \<and>
         ''password'' \<notin> set (keys (body (getProfile U db req)))"
  using assms by (simp add: getProfile_def delete_password_toObject keys_def)

theorem getProfile_fields_witness:
  "getProfile mem_model [john]
     ((request_with None)\<lparr>req_user := Some \<lparr>claim_id = ''0'', claim_email = ''john@example.com''\<rparr>\<rparr>) =
     \<lparr>status = 200,
      body = JObject [(''_id'', JString ''0''),
                      (''name'', JString ''John Doe''),
                      (''email'', JString ''john@example.com''),
                      (''createdAt'', JString ''2024-03-20T10:00:00.000Z''),
                      (''updatedAt'', JString ''2024-03-20T10:00:00.000Z''),
                      (''__v'', JNumber 0)]\<rparr> \<and>
   ''password'' \<notin> set (keys (body (getProfile mem_model [john]
     ((request_with None)\<lparr>req_user := Some \<lparr>claim_id = ''0'', claim_email = ''john@example.com''\<rparr>\<rparr>))))"
proof -
  have "User_findById mem_model [john] (claim_id \<lparr>claim_id = ''0'', claim_email = ''john@example.com''\<rparr>)
      = Inr (Some john)"
    by (simp add: mem_model_def mem_findById_def john_def)
  from getProfile_fields [where U = mem_model and db = "[john]" and u = john
      and c = "\<lparr>claim_id = ''0'', claim_email = ''john@example.com''\<rparr>"
      and req = "(request_with None)\<lparr>req_user := Some \<lparr>claim_id = ''0'', claim_email = ''john@example.com''\<rparr>\<rparr>",
      OF _ this]
  show ?thesis
    by (simp add: john_def keys_def)
qed

text \<open>
  C8 as stated says the answer has exactly the fields id, name and email. The profile
  of the stored account also has \<^verbatim>\<open>createdAt\<close>, \<^verbatim>\<open>updatedAt\<close> and \<^verbatim>\<open>__v\<close>.
\<close>

theorem profile_has_timestamps:
  "status (getProfile mem_model [john]
     ((request_with None)\<lparr>req_user := Some \<lparr>claim_id = ''0'', claim_email = ''john@example.com''\<rparr>\<rparr>)) = 200 \<and>
   keys (body (getProfile mem_model [john]
     ((request_with None)\<lparr>req_user := Some \<lparr>claim_id = ''0'', claim_email = ''john@example.com''\<rparr>\<rparr>))) =
     [''_id'', ''name'', ''email'', ''createdAt'', ''updatedAt'', ''__v''] \<and>
   set (keys (body (getProfile mem_model [john]
     ((request_with None)\<lparr>req_user := Some \<lparr>claim_id = ''0'', claim_email = ''john@example.com''\<rparr>\<rparr>)))) \<noteq>
     {''_id'', ''name'', ''email''}"
  by code_simp

subsection \<open>C9: running time of the comparison\<close>

text \<open>
  C9 is about the time the equality check takes. The functions here return values and
  carry no notion of time; \<open>ct_equal\<close> and plain equality are the same function
  (\<open>ct_equal_iff\<close>), so no statement over them separates a constant-time check from
  one that stops early.
\<close>

subsection \<open>C10: a valid token of an account that is gone\<close>

text \<open>
  C10. When the verifier accepts the bearer token and the storage has no user with the
  id of its claim, the profile request passes the guard and is answered 404
  \<^verbatim>\<open>User not found\<close>, not 401.
\<close>

theorem valid_token_unknown_user:
  assumes "authorization req = Some (''Bearer '' @ token)" and "CHR '' '' \<notin> set token"
    and "jwt_verify J (Some token) (JWT_SECRET e) now = Inr c"
    and "User_findById U db (claim_id c) = Inr None"
  shows "authenticateUser J e now req (getProfile U db) =
           \<lparr>status = 404, body = JObject [(''message'', JString ''User not found'')]\<rparr>"
proof -
  have prefix: "startsWith (''Bearer '' @ token) ''Bearer ''"
    by (simp add: startsWith_def)
  have "takeWhile (\<lambda>x. x \<noteq> CHR '' '') (drop 7 (''Bearer '' @ token)) = token"
    using assms(2) by auto
  with authenticateUser_step [OF assms(1) prefix, of J e now "getProfile U db"]
  have "authenticateUser J e now req (getProfile U db) =
      (case jwt_verify J (Some token) (JWT_SECRET e) now of
         Inl failure \<Rightarrow> invalid_token failure
       | Inr decoded \<Rightarrow> getProfile U db (req\<lparr>req_user := Some decoded\<rparr>))"
    by (simp only:)
  then have "authenticateUser J e now req (getProfile U db) =
      getProfile U db (req\<lparr>req_user := Some c\<rparr>)"
    by (simp add: assms(3))
  then show ?thesis
    using assms(4) by (simp add: getProfile_def message_body_def)
qed

theorem valid_token_unknown_user_witness:
  "authenticateUser (spec_jwt plain_codec) server_env 200
     (request_with (Some (''Bearer '' @ removed_token))) (getProfile mem_model [john]) =
     \<lparr>status = 404, body = JObject [(''message'', JString ''User not found'')]\<rparr>"
proof (rule valid_token_unknown_user
    [where token = removed_token and c = "\<lparr>claim_id = ''7'', claim_email = ''john@example.com''\<rparr>"])
  show "authorization (request_with (Some (''Bearer '' @ removed_token))) =
      Some (''Bearer '' @ removed_token)"
    by (simp add: request_with_def)
  show "CHR '' '' \<notin> set removed_token"
    by code_simp
  show "jwt_verify (spec_jwt plain_codec) (Some removed_token) (JWT_SECRET server_env) 200 =
      Inr \<lparr>claim_id = ''7'', claim_email = ''john@example.com''\<rparr>"
    by code_simp
  show "User_findById mem_model [john]
      (claim_id \<lparr>claim_id = ''7'', claim_email = ''john@example.com''\<rparr>) = Inr None"
    by code_simp
qed

end
